theory Spec2Isabelle
  imports Complex_Main
begin

section \<open>Numbers\<close>

text \<open>
  The program is TypeScript; every \<^verbatim>\<open>number\<close> is modelled by a real. Rounding of
  IEEE-754 doubles, the values NaN and Infinity and the sign of zero are outside this
  model: the theorems below are statements about the arithmetic the code writes down.

  \<^verbatim>\<open>Math.random()\<close> is a source of reals in \<open>[0, 1)\<close>. Each function that draws
  random numbers takes the draws as explicit arguments, in the order the source makes them.
\<close>

definition is_random :: "real \<Rightarrow> bool" where
  "is_random r \<longleftrightarrow> 0 \<le> r \<and> r < 1"

section \<open>GalaxyCanvas: the particle\<close>

text \<open>
  \<^verbatim>\<open>class Particle\<close>. The fields carry the prefix \<open>p_\<close>, since \<open>x\<close>, \<open>y\<close> and
  \<open>size\<close> would hide variables and a library constant. A colour read out of the range
  of the colour table is JavaScript's \<^verbatim>\<open>undefined\<close>, here \<open>None\<close>.
\<close>

record Particle =
  p_x :: real
  p_y :: real
  p_z :: real
  p_vx :: real
  p_vy :: real
  p_size :: real
  p_color :: "string option"
  p_angle :: real
  p_radius :: real
  p_angularSpeed :: real

definition colors :: "string list" where
  "colors = [''rgba(255, 255, 255, '', ''rgba(100, 200, 255, '',
             ''rgba(200, 100, 255, '', ''rgba(255, 150, 50, '']"

text \<open>\<^verbatim>\<open>colors[i]\<close> for an integral index \<open>i\<close>.\<close>

definition colors_at :: "int \<Rightarrow> string option" where
  "colors_at i = (if 0 \<le> i \<and> i < int (length colors) then Some (colors ! nat i) else None)"

text \<open>
  The constructor makes seven draws: \<open>rz\<close> for \<open>z\<close>, \<open>ra\<close> for the angle, \<open>rr\<close> for the
  radius, \<open>rs\<close> and \<open>rd\<close> for the magnitude and the direction of the angular speed,
  \<open>rsz\<close> for the size and \<open>rc\<close> for the colour.
\<close>

record draws =
  rz :: real
  ra :: real
  rr :: real
  rs :: real
  rd :: real
  rsz :: real
  rc :: real

definition draws_ok :: "draws \<Rightarrow> bool" where
  "draws_ok d \<longleftrightarrow> is_random (rz d) \<and> is_random (ra d) \<and> is_random (rr d) \<and>
     is_random (rs d) \<and> is_random (rd d) \<and> is_random (rsz d) \<and> is_random (rc d)"

definition Particle_new :: "real \<Rightarrow> real \<Rightarrow> draws \<Rightarrow> Particle" where
  "Particle_new width height d =
     \<lparr> p_x = width / 2,
       p_y = height / 2,
       p_z = rz d * 2,
       p_vx = 0,
       p_vy = 0,
       p_size = rsz d * 2 + 0.5,
       p_color = colors_at (\<lfloor>rc d * real (length colors)\<rfloor>),
       p_angle = ra d * pi * 2,
       p_radius = rr d * (min width height / 3),
       p_angularSpeed = (0.02 + rs d * 0.05) * (if rd d < 0.5 then 1 else -1) \<rparr>"

text \<open>
  \<^verbatim>\<open>update(width, height, chaos, scale)\<close>, with the two draws \<open>r1\<close> and \<open>r2\<close> of the
  jitter. The local constants of the method are functions of their own, so that the claims
  can speak about them. They take the particle as it is before the call; where the source
  reads \<^verbatim>\<open>this.angle\<close> after having advanced it, they read \<open>advance_angle\<close>.
\<close>

definition targetRadius :: "Particle \<Rightarrow> real \<Rightarrow> real" where
  "targetRadius p scale = p_radius p * (0.1 + scale * 1.5)"

definition jitter :: "real \<Rightarrow> real" where
  "jitter chaos = chaos * 5"

definition advance_angle :: "Particle \<Rightarrow> real \<Rightarrow> real" where
  "advance_angle p chaos = p_angle p + p_angularSpeed p * (1 + chaos * 2)"

definition targetX :: "Particle \<Rightarrow> real \<Rightarrow> real \<Rightarrow> real \<Rightarrow> real" where
  "targetX p width chaos scale =
     width / 2 + cos (advance_angle p chaos) * targetRadius p scale"

definition targetY :: "Particle \<Rightarrow> real \<Rightarrow> real \<Rightarrow> real \<Rightarrow> real" where
  "targetY p height chaos scale =
     height / 2 + sin (advance_angle p chaos) * targetRadius p scale"

definition update :: "real \<Rightarrow> real \<Rightarrow> real \<Rightarrow> real \<Rightarrow> real \<Rightarrow> real \<Rightarrow> Particle \<Rightarrow> Particle" where
  "update width height chaos scale r1 r2 p =
     (let p1 = p\<lparr>p_angle := advance_angle p chaos\<rparr>;
          p2 = p1\<lparr>p_x := p_x p1 + (targetX p width chaos scale - p_x p1) * 0.1\<rparr>;
          p3 = p2\<lparr>p_y := p_y p2 + (targetY p height chaos scale - p_y p2) * 0.1\<rparr>;
          p4 = p3\<lparr>p_x := p_x p3 + (r1 - 0.5) * jitter chaos\<rparr>
      in p4\<lparr>p_y := p_y p4 + (r2 - 0.5) * jitter chaos\<rparr>)"

text \<open>
  The position of a particle and the point \<open>(targetX, targetY)\<close> that one call of
  \<open>update\<close> moves it towards, as pairs, and the Euclidean distance of two such pairs.
\<close>

definition position :: "Particle \<Rightarrow> real \<times> real" where
  "position p = (p_x p, p_y p)"

definition target :: "real \<Rightarrow> real \<Rightarrow> real \<Rightarrow> real \<Rightarrow> Particle \<Rightarrow> real \<times> real" where
  "target width height chaos scale p = (targetX p width chaos scale, targetY p height chaos scale)"

definition euclid :: "real \<times> real \<Rightarrow> real \<times> real \<Rightarrow> real" where
  "euclid a b = sqrt ((fst a - fst b)\<^sup>2 + (snd a - snd b)\<^sup>2)"



text \<open>
  The particles the program can hold: the pool is filled by the constructor, called with
  the width and height of a canvas, and from then on its particles are changed by
  \<open>update\<close> alone.
\<close>

inductive pool_particle :: "Particle \<Rightarrow> bool" where
  constructed: "draws_ok d \<Longrightarrow> pool_particle (Particle_new (real w) (real h) d)"
| updated: "pool_particle p \<Longrightarrow> pool_particle (update width height chaos scale r1 r2 p)"

text \<open>Draws for the examples: angle 0, half the largest radius, angular speed 0.05.\<close>

definition draws0 :: draws where
  "draws0 = \<lparr> rz = 0.5, ra = 0, rr = 0.5, rs = 0.6, rd = 0, rsz = 0.5, rc = 0.5 \<rparr>"

text \<open>
  The life of one particle after its construction is a sequence of calls of \<open>update\<close>,
  one in every frame. A \<open>tick\<close> holds the arguments of one call and its two draws; the
  width, height, chaos and scale may differ from frame to frame. A tick is in order for
  a window of at most \<open>W\<close> by \<open>H\<close> when the canvas is no larger than that, chaos and
  scale lie in \<open>[0, 1]\<close> and the draws in \<open>[0, 1)\<close>.
\<close>

record tick =
  t_width :: real
  t_height :: real
  t_chaos :: real
  t_scale :: real
  t_r1 :: real
  t_r2 :: real

fun ticks :: "tick list \<Rightarrow> Particle \<Rightarrow> Particle" where
  "ticks [] p = p"
| "ticks (t # ts) p =
     ticks ts (update (t_width t) (t_height t) (t_chaos t) (t_scale t) (t_r1 t) (t_r2 t) p)"

definition tick_ok :: "real \<Rightarrow> real \<Rightarrow> tick \<Rightarrow> bool" where
  "tick_ok W H t \<longleftrightarrow>
     0 \<le> t_width t \<and> t_width t \<le> W \<and> 0 \<le> t_height t \<and> t_height t \<le> H \<and>
     0 \<le> t_chaos t \<and> t_chaos t \<le> 1 \<and> 0 \<le> t_scale t \<and> t_scale t \<le> 1 \<and>
     is_random (t_r1 t) \<and> is_random (t_r2 t)"

definition tick0 :: tick where
  "tick0 = \<lparr> t_width = 1024, t_height = 768, t_chaos = 1, t_scale = 1, t_r1 = 0.9, t_r2 = 0.1 \<rparr>"

text \<open>
  The orbit a particle settles on when it is ticked at chaos 0 and scale 1 on a canvas of
  fixed size. The target point turns by \<open>angularSpeed\<close> in every tick and the particle
  follows it by a tenth of the gap, so it ends up on a smaller circle and behind the
  target. \<open>steady\<close> is the point of that circle that belongs to the angle the particle
  has; \<open>orbit_den\<close> is the squared modulus of \<open>1 - 0.9 * exp (- i * angularSpeed)\<close>, with \<open>i\<close> the imaginary unit.
\<close>

definition orbit_den :: "Particle \<Rightarrow> real" where
  "orbit_den p = 1.81 - 1.8 * cos (p_angularSpeed p)"

definition steady :: "real \<Rightarrow> real \<Rightarrow> Particle \<Rightarrow> real \<times> real" where
  "steady width height p =
     (let a = 0.1 * targetRadius p 1 * (1 - 0.9 * cos (p_angularSpeed p)) / orbit_den p;
          b = - (0.09 * targetRadius p 1 * sin (p_angularSpeed p)) / orbit_den p
      in (width / 2 + a * cos (p_angle p) - b * sin (p_angle p),
          height / 2 + a * sin (p_angle p) + b * cos (p_angle p)))"

section \<open>GestureController: from hand landmarks to parameters\<close>

text \<open>
  \<^verbatim>\<open>SimulationParams\<close> of types.ts, and \<^verbatim>\<open>Partial<SimulationParams>\<close>, the
  argument of \<^verbatim>\<open>onParamsUpdate\<close>: a key that is absent is \<open>None\<close>.
\<close>

record SimulationParams =
  sp_chaos :: real
  sp_scale :: real
  sp_active :: bool

record PartialParams =
  pp_chaos :: "real option"
  pp_scale :: "real option"
  pp_active :: "bool option"

definition INITIAL_PARAMS :: SimulationParams where
  "INITIAL_PARAMS = \<lparr> sp_chaos = 0.1, sp_scale = 0.5, sp_active = False \<rparr>"


text \<open>
  What the detector returns, as far as the code reads it: per hand a list of landmarks
  and a list of categories.
\<close>

record NormalizedLandmark =
  lm_x :: real
  lm_y :: real
  lm_z :: real

record Category =
  categoryName :: string

record HandLandmarkerResult =
  res_landmarks :: "NormalizedLandmark list list"
  res_handednesses :: "Category list list"

text \<open>
  Reading a JavaScript array out of range gives \<^verbatim>\<open>undefined\<close> (\<open>None\<close>), and reading a
  property of \<^verbatim>\<open>undefined\<close> throws a \<^verbatim>\<open>TypeError\<close>. \<open>Rejected\<close> stands for whatever
  an external call throws or rejects with.
\<close>

datatype js_error = TypeError | Rejected string

definition array_at :: "'a list \<Rightarrow> nat \<Rightarrow> 'a option" where
  "array_at xs i = (if i < length xs then Some (xs ! i) else None)"

definition distance :: "NormalizedLandmark \<Rightarrow> NormalizedLandmark \<Rightarrow> real" where
  "distance thumb indexFinger =
     sqrt ((lm_x thumb - lm_x indexFinger)\<^sup>2 + (lm_y thumb - lm_y indexFinger)\<^sup>2)"

definition normalizedValue :: "real \<Rightarrow> real" where
  "normalizedValue d = min (max (d * 5) 0) 1"

text \<open>
  The callback of \<^verbatim>\<open>result.landmarks.forEach\<close>. The pair is the state of the two local
  variables \<open>(chaos, scale)\<close>. In the branch of the left hand the source assigns \<open>chaos\<close>
  twice; the second assignment is the one that stays.
\<close>

definition hand_callback ::
  "HandLandmarkerResult \<Rightarrow> real \<times> real \<Rightarrow> NormalizedLandmark list \<Rightarrow> nat \<Rightarrow> js_error + real \<times> real" where
  "hand_callback result cs landmarks index =
     (case array_at (res_handednesses result) index of
        None \<Rightarrow> Inl TypeError
      | Some hs \<Rightarrow>
         (case array_at hs 0 of
            None \<Rightarrow> Inl TypeError
          | Some cat \<Rightarrow>
             (let handedness = categoryName cat in
              case array_at landmarks 4 of
                None \<Rightarrow> Inl TypeError
              | Some thumb \<Rightarrow>
                 (case array_at landmarks 8 of
                    None \<Rightarrow> Inl TypeError
                  | Some indexFinger \<Rightarrow>
                     (let normalized = normalizedValue (distance thumb indexFinger) in
                      if handedness = ''Left''
                      then (let chaos1 = 1 - normalized; chaos2 = normalized in Inr (chaos2, snd cs))
                      else Inr (fst cs, normalized))))))"

fun forEach_landmarks ::
  "HandLandmarkerResult \<Rightarrow> NormalizedLandmark list list \<Rightarrow> nat \<Rightarrow> real \<times> real \<Rightarrow> js_error + real \<times> real" where
  "forEach_landmarks result [] index cs = Inr cs"
| "forEach_landmarks result (landmarks # rest) index cs =
     (case hand_callback result cs landmarks index of
        Inl e \<Rightarrow> Inl e
      | Inr cs' \<Rightarrow> forEach_landmarks result rest (Suc index) cs')"

text \<open>
  One run of \<^verbatim>\<open>predictWebcam\<close>. The frame holds what the run reads: whether the
  landmarker and the video element are there, the width of the video data, and the result
  that \<^verbatim>\<open>detectForVideo\<close> gives for it. The value is the argument with which
  \<^verbatim>\<open>onParamsUpdate\<close> is called, \<open>None\<close> when it is not called, or the error thrown.
\<close>

record Frame =
  handLandmarker_set :: bool
  video_set :: bool
  videoWidth :: nat
  detectForVideo :: HandLandmarkerResult

definition predictWebcam :: "Frame \<Rightarrow> js_error + PartialParams option" where
  "predictWebcam f =
     (if \<not> handLandmarker_set f \<or> \<not> video_set f then Inr None
      else if videoWidth f > 0 then
        (let result = detectForVideo f;
             chaos = 0;
             scale = 0.5;
             handsDetected = False
         in if length (res_landmarks result) > 0
            then (case forEach_landmarks result (res_landmarks result) 0 (chaos, scale) of
                    Inl e \<Rightarrow> Inl e
                  | Inr (chaos', scale') \<Rightarrow>
                      Inr (Some \<lparr> pp_chaos = Some chaos', pp_scale = Some scale', pp_active = Some True \<rparr>))
            else Inr (Some \<lparr> pp_chaos = Some chaos, pp_scale = Some scale,
                             pp_active = Some handsDetected \<rparr>))
      else Inr None)"

text \<open>
  \<^verbatim>\<open>handleParamsUpdate\<close> of the application: the object spread
  \<^verbatim>\<open>{ ...paramsRef.current, ...newParams }\<close>.
\<close>

definition handleParamsUpdate :: "SimulationParams \<Rightarrow> PartialParams \<Rightarrow> SimulationParams" where
  "handleParamsUpdate current newParams =
     \<lparr> sp_chaos = (case pp_chaos newParams of None \<Rightarrow> sp_chaos current | Some c \<Rightarrow> c),
       sp_scale = (case pp_scale newParams of None \<Rightarrow> sp_scale current | Some s \<Rightarrow> s),
       sp_active = (case pp_active newParams of None \<Rightarrow> sp_active current | Some a \<Rightarrow> a) \<rparr>"

text \<open>
  One frame of the whole path: the parameters the simulation reads after the frame, given
  the ones it read before.
\<close>

definition frame_step :: "SimulationParams \<Rightarrow> Frame \<Rightarrow> js_error + SimulationParams" where
  "frame_step current f =
     (case predictWebcam f of
        Inl e \<Rightarrow> Inl e
      | Inr None \<Rightarrow> Inr current
      | Inr (Some newParams) \<Rightarrow> Inr (handleParamsUpdate current newParams))"

text \<open>
  Frames for the examples: a video frame with data in which the detector finds the given
  hands, and a hand of 21 landmarks with the thumb tip at the origin and the index tip at
  \<open>(d, 0)\<close>, so that the two tips are \<open>d\<close> apart.
\<close>

definition origin :: NormalizedLandmark where
  "origin = \<lparr> lm_x = 0, lm_y = 0, lm_z = 0 \<rparr>"

definition pinch :: "real \<Rightarrow> NormalizedLandmark list" where
  "pinch d = (replicate 21 origin)[8 := \<lparr> lm_x = d, lm_y = 0, lm_z = 0 \<rparr>]"

definition seen :: "(string \<times> real) list \<Rightarrow> Frame" where
  "seen hands =
     \<lparr> handLandmarker_set = True, video_set = True, videoWidth = 640,
       detectForVideo =
         \<lparr> res_landmarks = map (\<lambda>(name, d). pinch d) hands,
           res_handednesses = map (\<lambda>(name, d). [\<lparr> categoryName = name \<rparr>]) hands \<rparr> \<rparr>"

section \<open>geminiService: the analysis text\<close>

text \<open>
  \<^verbatim>\<open>Math.round\<close> rounds halves upwards. \<open>String_of\<close> is the text of an integer in a
  template literal (decimal digits, as JavaScript prints every integer below \<open>10\<^sup>2\<^sup>1\<close>).
\<close>

definition Math_round :: "real \<Rightarrow> int" where
  "Math_round v = \<lfloor>v + 1 / 2\<rfloor>"

fun digits :: "nat \<Rightarrow> string" where
  "digits n = (if n < 10 then [char_of (48 + n)] else digits (n div 10) @ [char_of (48 + n mod 10)])"

declare digits.simps [simp del]

definition String_of :: "int \<Rightarrow> string" where
  "String_of i = (if i < 0 then CHR ''-'' # digits (nat (- i)) else digits (nat i))"

text \<open>
  The request and the response of \<^verbatim>\<open>ai.models.generateContent\<close>, as far as the code
  writes and reads them. A string is truthy when it is there and not empty.
\<close>

record GenerateContentParameters =
  gc_model :: string
  gc_contents :: string
  gc_thinkingBudget :: int

record GenerateContentResponse =
  response_text :: "string option"

definition truthy :: "string option \<Rightarrow> bool" where
  "truthy s = (case s of None \<Rightarrow> False | Some t \<Rightarrow> t \<noteq> [])"

definition contextInstruction :: "string option \<Rightarrow> string" where
  "contextInstruction userQuery =
     (if truthy userQuery
      then ''The user (Starship Captain) asks: '' @ [CHR 0x22] @ the userQuery @ [CHR 0x22]
           @ ''. Answer their specific question based on the telemetry.''
      else ''Describe the visual and physical state of this galaxy in 2 sentences.'')"

definition prompt :: "real \<Rightarrow> real \<Rightarrow> string option \<Rightarrow> string" where
  "prompt chaos scale userQuery =
     (let chaosPct = Math_round (chaos * 100);
          scalePct = Math_round (scale * 100);
          nl = [CHR 0x0A]
      in nl
       @ ''      You are a cosmic observer AI monitoring a galaxy simulation.'' @ nl
       @ ''      The current simulation parameters are:'' @ nl
       @ ''      - Entropy/Chaos Level: '' @ String_of chaosPct
       @ ''% (0% is ordered, 100% is total molecular scattering)'' @ nl
       @ ''      - Gravitational Scale: '' @ String_of scalePct
       @ ''% (0% is a dense singularity, 100% is a massive expanded nebula)'' @ nl
       @ nl
       @ ''      '' @ contextInstruction userQuery @ nl
       @ ''      '' @ nl
       @ ''      Use scientific yet poetic language suitable for a sci-fi interface. '' @ nl
       @ ''      Do not mention '' @ [CHR 0x22] @ ''percentages'' @ [CHR 0x22]
       @ '' explicitly, describe the effects.'' @ nl
       @ ''    '')"

definition request :: "real \<Rightarrow> real \<Rightarrow> string option \<Rightarrow> GenerateContentParameters" where
  "request chaos scale userQuery =
     \<lparr> gc_model = ''gemini-2.5-flash'', gc_contents = prompt chaos scale userQuery,
       gc_thinkingBudget = 0 \<rparr>"

text \<open>
  The body of the \<^verbatim>\<open>try\<close> block: the call of the model is the one step of it that can
  throw (or reject), and \<open>generateContent\<close> is that call, a parameter of the model.
\<close>

definition try_block ::
  "(GenerateContentParameters \<Rightarrow> js_error + GenerateContentResponse) \<Rightarrow>
     real \<Rightarrow> real \<Rightarrow> string option \<Rightarrow> js_error + string" where
  "try_block generateContent chaos scale userQuery =
     (case generateContent (request chaos scale userQuery) of
        Inl e \<Rightarrow> Inl e
      | Inr response \<Rightarrow>
          Inr (if truthy (response_text response) then the (response_text response)
               else ''Connection to Deep Space Network lost...''))"

text \<open>\<^verbatim>\<open>generateCosmicAnalysis\<close>: the block and its \<^verbatim>\<open>catch\<close>.\<close>

definition generateCosmicAnalysis ::
  "(GenerateContentParameters \<Rightarrow> js_error + GenerateContentResponse) \<Rightarrow>
     real \<Rightarrow> real \<Rightarrow> string option \<Rightarrow> js_error + string" where
  "generateCosmicAnalysis generateContent chaos scale userQuery =
     (case try_block generateContent chaos scale userQuery of
        Inr s \<Rightarrow> Inr s
      | Inl error \<Rightarrow> Inr ''ANALYSIS FAILED: Cosmic interference detected.'')"

section \<open>The update step\<close>

lemma update_fields:
  "update width height chaos scale r1 r2 p =
     p\<lparr>p_angle := advance_angle p chaos,
       p_x := p_x p + (targetX p width chaos scale - p_x p) * 0.1 + (r1 - 0.5) * jitter chaos,
       p_y := p_y p + (targetY p height chaos scale - p_y p) * 0.1 + (r2 - 0.5) * jitter chaos\<rparr>"
  by (simp add: update_def Let_def)

text \<open>
  Claim C5. One call of \<open>update\<close> adds \<open>angularSpeed * (1 + chaos * 2)\<close> to the angle:
  the difference of the angle after and before the call is \<open>angularSpeed\<close> at chaos 0
  and \<open>3 * angularSpeed\<close> at chaos 1.
\<close>

theorem update_angle_delta:
  "p_angle (update width height chaos scale r1 r2 p) - p_angle p
     = p_angularSpeed p * (1 + chaos * 2)
   \<and> p_angle (update width height 0 scale r1 r2 p) - p_angle p = p_angularSpeed p
   \<and> p_angle (update width height 1 scale r1 r2 p) - p_angle p = 3 * p_angularSpeed p"
  by (simp add: update_fields advance_angle_def)

text \<open>
  Claim C9. \<open>update\<close> writes the fields \<open>x\<close>, \<open>y\<close> and \<open>angle\<close> and no other: the
  particle after the call is the particle before it with new values in these three
  fields, so \<open>radius\<close>, \<open>angularSpeed\<close>, \<open>size\<close> and \<open>color\<close> (and \<open>z\<close>, \<open>vx\<close>, \<open>vy\<close>)
  are the ones it had.
\<close>

theorem update_frame:
  "(\<exists>a x' y'. update width height chaos scale r1 r2 p = p\<lparr>p_angle := a, p_x := x', p_y := y'\<rparr>)
   \<and> p_radius (update width height chaos scale r1 r2 p) = p_radius p
   \<and> p_angularSpeed (update width height chaos scale r1 r2 p) = p_angularSpeed p
   \<and> p_size (update width height chaos scale r1 r2 p) = p_size p
   \<and> p_color (update width height chaos scale r1 r2 p) = p_color p
   \<and> p_z (update width height chaos scale r1 r2 p) = p_z p
   \<and> p_vx (update width height chaos scale r1 r2 p) = p_vx p
   \<and> p_vy (update width height chaos scale r1 r2 p) = p_vy p"
proof -
  have "\<exists>a x' y'. update width height chaos scale r1 r2 p = p\<lparr>p_angle := a, p_x := x', p_y := y'\<rparr>"
    unfolding update_fields by blast
  then show ?thesis
    by (simp add: update_fields)
qed

section \<open>The radius of the orbit\<close>

lemma Particle_new_radius:
  assumes "draws_ok d" and "0 \<le> width" and "0 \<le> height"
  shows "0 \<le> p_radius (Particle_new width height d)"
  using assms by (simp add: Particle_new_def draws_ok_def is_random_def)

lemma update_radius: "p_radius (update width height chaos scale r1 r2 p) = p_radius p"
  by (simp add: update_fields)

lemma pool_particle_radius: "pool_particle p \<Longrightarrow> 0 \<le> p_radius p"
  by (induction rule: pool_particle.induct) (simp_all add: Particle_new_radius update_radius)

lemma draws_ok_draws0: "draws_ok draws0"
  by (simp add: draws_ok_def is_random_def draws0_def)

text \<open>
  Claim C4. For every particle of the pool the target radius does not decrease when the
  scale grows (for any two scales, so also within \<open>[0, 1]\<close>); at scale 0 it is
  \<open>0.1 * radius\<close> and at scale 1 it is \<open>1.6 * radius\<close>. The radius of a particle of
  the pool is not negative: the constructor draws it from \<open>[0, min width height / 3]\<close>
  and \<open>update\<close> leaves it alone.
\<close>

theorem targetRadius_monotone:
  assumes "pool_particle p"
  shows "(\<forall>s1 s2. s1 \<le> s2 \<longrightarrow> targetRadius p s1 \<le> targetRadius p s2)
     \<and> targetRadius p 0 = 0.1 * p_radius p
     \<and> targetRadius p 1 = 1.6 * p_radius p"
proof -
  have "0 \<le> p_radius p"
    using assms by (rule pool_particle_radius)
  then have "\<forall>s1 s2. s1 \<le> s2 \<longrightarrow> targetRadius p s1 \<le> targetRadius p s2"
    by (simp add: targetRadius_def mult_left_mono)
  then show ?thesis
    by (simp add: targetRadius_def)
qed

theorem targetRadius_monotone_witness:
  "pool_particle (Particle_new (real 300) (real 150) draws0)
   \<and> (0.2::real) \<le> 0.7
   \<and> targetRadius (Particle_new (real 300) (real 150) draws0) 0.2
       \<le> targetRadius (Particle_new (real 300) (real 150) draws0) 0.7
   \<and> targetRadius (Particle_new (real 300) (real 150) draws0) 0 = 2.5
   \<and> targetRadius (Particle_new (real 300) (real 150) draws0) 1 = 40"
proof -
  have p: "pool_particle (Particle_new (real 300) (real 150) draws0)"
    by (rule constructed [OF draws_ok_draws0])
  have r: "p_radius (Particle_new (real 300) (real 150) draws0) = 25"
    by (simp add: Particle_new_def draws0_def)
  show ?thesis
    using p targetRadius_monotone [OF p] r by simp
qed

section \<open>Positions stay bounded\<close>

lemma targetRadius_bound:
  assumes "0 \<le> scale" and "scale \<le> 1"
  shows "\<bar>targetRadius p scale\<bar> \<le> 1.6 * \<bar>p_radius p\<bar>"
proof -
  have "\<bar>0.1 + scale * 1.5\<bar> \<le> 1.6"
    using assms by simp
  then have "\<bar>p_radius p\<bar> * \<bar>0.1 + scale * 1.5\<bar> \<le> \<bar>p_radius p\<bar> * 1.6"
    by (rule mult_left_mono) simp
  then show ?thesis
    by (simp add: targetRadius_def abs_mult mult.commute)
qed

lemma jitter_bound:
  assumes "0 \<le> chaos" and "chaos \<le> 1" and "is_random r"
  shows "\<bar>(r - 0.5) * jitter chaos\<bar> \<le> 2.5"
proof -
  have "\<bar>r - 0.5\<bar> \<le> 0.5"
    using assms(3) unfolding is_random_def by arith
  moreover have "\<bar>jitter chaos\<bar> \<le> 5"
    using assms(1,2) by (simp add: jitter_def)
  ultimately have "\<bar>r - 0.5\<bar> * \<bar>jitter chaos\<bar> \<le> 0.5 * 5"
    by (rule mult_mono) simp_all
  then show ?thesis
    by (simp add: abs_mult)
qed

lemma step_bound:
  fixes x c u j B M :: real
  assumes "\<bar>x\<bar> \<le> M" and "B + 25 \<le> M" and "\<bar>c\<bar> + \<bar>u\<bar> \<le> B" and "\<bar>j\<bar> \<le> 2.5"
  shows "\<bar>x + (c + u - x) * 0.1 + j\<bar> \<le> M"
proof -
  have "x \<le> M" and "- x \<le> M" and "j \<le> 2.5" and "- j \<le> 2.5"
    using assms(1,4) by (simp_all add: abs_le_iff)
  moreover have "c + u \<le> B" and "- (c + u) \<le> B"
    using assms(3) by linarith+
  ultimately have "x + (c + u - x) / 10 + j \<le> M \<and> - (x + (c + u - x) / 10 + j) \<le> M"
    using assms(2) by (simp add: field_simps)
  then show ?thesis
    by (simp add: abs_le_iff)
qed

lemma abs_target_bound:
  assumes "0 \<le> scale" and "scale \<le> 1"
  shows "\<bar>cos a * targetRadius p scale\<bar> \<le> 1.6 * \<bar>p_radius p\<bar>"
    and "\<bar>sin a * targetRadius p scale\<bar> \<le> 1.6 * \<bar>p_radius p\<bar>"
proof -
  have t: "0 \<le> \<bar>targetRadius p scale\<bar>"
    by simp
  have "\<bar>cos a\<bar> * \<bar>targetRadius p scale\<bar> \<le> 1 * \<bar>targetRadius p scale\<bar>"
    by (rule mult_right_mono) simp_all
  with targetRadius_bound [OF assms, of p]
  show "\<bar>cos a * targetRadius p scale\<bar> \<le> 1.6 * \<bar>p_radius p\<bar>"
    by (simp add: abs_mult)
  have "\<bar>sin a\<bar> * \<bar>targetRadius p scale\<bar> \<le> 1 * \<bar>targetRadius p scale\<bar>"
    by (rule mult_right_mono) simp_all
  with targetRadius_bound [OF assms, of p]
  show "\<bar>sin a * targetRadius p scale\<bar> \<le> 1.6 * \<bar>p_radius p\<bar>"
    by (simp add: abs_mult)
qed

lemma update_bound:
  assumes "tick_ok W H t"
    and "\<bar>p_x p\<bar> \<le> Mx" and "W / 2 + 1.6 * \<bar>p_radius p\<bar> + 25 \<le> Mx"
    and "\<bar>p_y p\<bar> \<le> My" and "H / 2 + 1.6 * \<bar>p_radius p\<bar> + 25 \<le> My"
  shows "\<bar>p_x (update (t_width t) (t_height t) (t_chaos t) (t_scale t) (t_r1 t) (t_r2 t) p)\<bar> \<le> Mx"
    and "\<bar>p_y (update (t_width t) (t_height t) (t_chaos t) (t_scale t) (t_r1 t) (t_r2 t) p)\<bar> \<le> My"
proof -
  from assms(1) have ok: "0 \<le> t_scale t" "t_scale t \<le> 1" "0 \<le> t_chaos t" "t_chaos t \<le> 1"
      "is_random (t_r1 t)" "is_random (t_r2 t)"
      "0 \<le> t_width t" "t_width t \<le> W" "0 \<le> t_height t" "t_height t \<le> H"
    by (simp_all add: tick_ok_def)
  have cx: "\<bar>t_width t / 2\<bar> + \<bar>cos (advance_angle p (t_chaos t)) * targetRadius p (t_scale t)\<bar>
      \<le> W / 2 + 1.6 * \<bar>p_radius p\<bar>"
    using abs_target_bound(1) [OF ok(1,2), of "advance_angle p (t_chaos t)" p] ok(7,8) by simp
  have cy: "\<bar>t_height t / 2\<bar> + \<bar>sin (advance_angle p (t_chaos t)) * targetRadius p (t_scale t)\<bar>
      \<le> H / 2 + 1.6 * \<bar>p_radius p\<bar>"
    using abs_target_bound(2) [OF ok(1,2), of "advance_angle p (t_chaos t)" p] ok(9,10) by simp
  show "\<bar>p_x (update (t_width t) (t_height t) (t_chaos t) (t_scale t) (t_r1 t) (t_r2 t) p)\<bar> \<le> Mx"
    using step_bound [OF assms(2) assms(3) cx jitter_bound [OF ok(3,4,5)]]
    by (simp add: update_fields targetX_def)
  show "\<bar>p_y (update (t_width t) (t_height t) (t_chaos t) (t_scale t) (t_r1 t) (t_r2 t) p)\<bar> \<le> My"
    using step_bound [OF assms(4) assms(5) cy jitter_bound [OF ok(3,4,6)]]
    by (simp add: update_fields targetY_def)
qed

lemma ticks_radius: "p_radius (ticks ts p) = p_radius p"
  by (induction ts arbitrary: p) (simp_all add: update_fields)

lemma ticks_bound:
  assumes "\<forall>t \<in> set ts. tick_ok W H t"
    and "\<bar>p_x p\<bar> \<le> Mx" and "W / 2 + 1.6 * \<bar>p_radius p\<bar> + 25 \<le> Mx"
    and "\<bar>p_y p\<bar> \<le> My" and "H / 2 + 1.6 * \<bar>p_radius p\<bar> + 25 \<le> My"
  shows "\<bar>p_x (ticks ts p)\<bar> \<le> Mx \<and> \<bar>p_y (ticks ts p)\<bar> \<le> My"
  using assms
proof (induction ts arbitrary: p)
  case Nil
  then show ?case by simp
next
  case (Cons t ts)
  let ?q = "update (t_width t) (t_height t) (t_chaos t) (t_scale t) (t_r1 t) (t_r2 t) p"
  have ok: "tick_ok W H t"
    using Cons.prems(1) by simp
  have r: "p_radius ?q = p_radius p"
    by (simp add: update_fields)
  have "\<bar>p_x (ticks ts ?q)\<bar> \<le> Mx \<and> \<bar>p_y (ticks ts ?q)\<bar> \<le> My"
  proof (rule Cons.IH)
    show "\<forall>t \<in> set ts. tick_ok W H t"
      using Cons.prems(1) by simp
    show "\<bar>p_x ?q\<bar> \<le> Mx"
      by (rule update_bound(1) [OF ok Cons.prems(2,3,4,5)])
    show "\<bar>p_y ?q\<bar> \<le> My"
      by (rule update_bound(2) [OF ok Cons.prems(2,3,4,5)])
    show "W / 2 + 1.6 * \<bar>p_radius ?q\<bar> + 25 \<le> Mx"
      using Cons.prems(3) by (simp only: r)
    show "H / 2 + 1.6 * \<bar>p_radius ?q\<bar> + 25 \<le> My"
      using Cons.prems(5) by (simp only: r)
  qed
  then show ?case
    by simp
qed

text \<open>
  Claim C3. In this theory a number is a real, and the way a position could fail to be a
  finite number is to grow without bound. It does not: for every particle and every
  sequence of update ticks whose chaos and scale lie in \<open>[0, 1]\<close> (on canvases of at
  most \<open>W\<close> by \<open>H\<close>, with draws in \<open>[0, 1)\<close>), however long the sequence is, the
  components \<open>x\<close> and \<open>y\<close> of the position stay within a bound that depends on the
  particle before the ticks and on \<open>W\<close> and \<open>H\<close>, not on the number of ticks.
\<close>

theorem positions_bounded:
  assumes "\<forall>t \<in> set ts. tick_ok W H t"
  shows "\<bar>p_x (ticks ts p)\<bar> \<le> max \<bar>p_x p\<bar> (W / 2 + 1.6 * \<bar>p_radius p\<bar> + 25)
       \<and> \<bar>p_y (ticks ts p)\<bar> \<le> max \<bar>p_y p\<bar> (H / 2 + 1.6 * \<bar>p_radius p\<bar> + 25)"
  by (rule ticks_bound [OF assms]) simp_all

theorem positions_bounded_witness:
  "tick_ok 1024 768 tick0
   \<and> \<bar>p_x (ticks [tick0, tick0, tick0] (Particle_new 300 150 draws0))\<bar> \<le> 577
   \<and> \<bar>p_y (ticks [tick0, tick0, tick0] (Particle_new 300 150 draws0))\<bar> \<le> 449"
proof -
  have ok: "tick_ok 1024 768 tick0"
    by (simp add: tick_ok_def tick0_def is_random_def)
  then have "\<forall>t \<in> set [tick0, tick0, tick0]. tick_ok 1024 768 t"
    by simp
  from positions_bounded [OF this, of "Particle_new 300 150 draws0"] ok
  show ?thesis
    by (simp add: Particle_new_def draws0_def)
qed

section \<open>Ticks without chaos at full scale\<close>

lemma euclid_scale:
  assumes "fst a - fst c = k * (fst b - fst c)" and "snd a - snd c = k * (snd b - snd c)"
    and "0 \<le> k"
  shows "euclid a c = k * euclid b c"
proof -
  have "(fst a - fst c)\<^sup>2 + (snd a - snd c)\<^sup>2 = k\<^sup>2 * ((fst b - fst c)\<^sup>2 + (snd b - snd c)\<^sup>2)"
    by (simp add: assms(1,2) power_mult_distrib distrib_left)
  then show ?thesis
    using assms(3) by (simp add: euclid_def real_sqrt_mult)
qed

lemma circle_point: "(cos a * r)\<^sup>2 + (sin a * r)\<^sup>2 = (r::real)\<^sup>2"
proof -
  have "(cos a * r)\<^sup>2 + (sin a * r)\<^sup>2 = ((sin a)\<^sup>2 + (cos a)\<^sup>2) * r\<^sup>2"
    by (simp only: power_mult_distrib distrib_right add.commute)
  then show ?thesis
    by simp
qed

lemma calm_step:
  "euclid (position (update width height 0 1 r1 r2 p)) (target width height 0 1 p)
     = 0.9 * euclid (position p) (target width height 0 1 p)"
proof (rule euclid_scale)
  show "fst (position (update width height 0 1 r1 r2 p)) - fst (target width height 0 1 p)
      = 0.9 * (fst (position p) - fst (target width height 0 1 p))"
    by (simp add: update_fields position_def target_def jitter_def algebra_simps)
  show "snd (position (update width height 0 1 r1 r2 p)) - snd (target width height 0 1 p)
      = 0.9 * (snd (position p) - snd (target width height 0 1 p))"
    by (simp add: update_fields position_def target_def jitter_def algebra_simps)
  show "(0::real) \<le> 0.9"
    by simp
qed

lemma target_on_orbit:
  "euclid (target width height chaos scale p) (width / 2, height / 2) = \<bar>targetRadius p scale\<bar>"
proof -
  have "(cos (advance_angle p chaos) * targetRadius p scale)\<^sup>2
      + (sin (advance_angle p chaos) * targetRadius p scale)\<^sup>2
      = (targetRadius p scale)\<^sup>2"
    by (simp add: circle_point)
  then show ?thesis
    by (simp add: euclid_def target_def targetX_def targetY_def)
qed

lemma orbit_den_pos: "0.01 \<le> orbit_den p"
  using cos_le_one [of "p_angularSpeed p"] by (simp add: orbit_den_def)

lemma euclid_scale2:
  assumes "fst a - fst a' = k * (fst b - fst b')" and "snd a - snd a' = k * (snd b - snd b')"
    and "0 \<le> k"
  shows "euclid a a' = k * euclid b b'"
proof -
  have "(fst a - fst a')\<^sup>2 + (snd a - snd a')\<^sup>2 = k\<^sup>2 * ((fst b - fst b')\<^sup>2 + (snd b - snd b')\<^sup>2)"
    by (simp add: assms(1,2) power_mult_distrib distrib_left)
  then show ?thesis
    using assms(3) by (simp add: euclid_def real_sqrt_mult)
qed

lemma gain_identity:
  fixes cw sw :: real
  assumes "sw\<^sup>2 + cw\<^sup>2 = 1"
  shows "(1 - 0.9 * cw)\<^sup>2 + 0.81 * sw\<^sup>2 = 1.81 - 1.8 * cw"
proof -
  have "(1 - 0.9 * cw)\<^sup>2 + 0.81 * sw\<^sup>2 = 1 - 1.8 * cw + 0.81 * (sw\<^sup>2 + cw\<^sup>2)"
    by (simp add: power2_eq_square algebra_simps)
  then show ?thesis
    by (simp add: assms)
qed

lemma steady_coeffs:
  fixes R cw sw D a b :: real
  assumes q: "sw\<^sup>2 + cw\<^sup>2 = 1" and D: "D = 1.81 - 1.8 * cw" and D0: "D \<noteq> 0"
    and a: "a = 0.1 * R * (1 - 0.9 * cw) / D" and b: "b = - (0.09 * R * sin_w) / D"
    and sw: "sin_w = sw"
  shows "a * (1 - 0.9 * cw) - 0.9 * b * sw = 0.1 * R" and "b * (1 - 0.9 * cw) + 0.9 * a * sw = 0"
proof -
  have "a * (1 - 0.9 * cw) - 0.9 * b * sw = 0.1 * R * ((1 - 0.9 * cw)\<^sup>2 + 0.81 * sw\<^sup>2) / D"
    using D0 by (simp add: a b sw power2_eq_square field_simps)
  also have "\<dots> = 0.1 * R * D / D"
    by (simp only: gain_identity [OF q] D)
  finally show "a * (1 - 0.9 * cw) - 0.9 * b * sw = 0.1 * R"
    using D0 by simp
  show "b * (1 - 0.9 * cw) + 0.9 * a * sw = 0"
    by (simp add: a b sw field_simps)
qed

lemma rotate_identity:
  fixes g k a b cw sw ct st :: real
  assumes q: "sw\<^sup>2 + cw\<^sup>2 = 1"
    and e1: "a * (1 - k * cw) - k * b * sw = g"
    and e2: "b * (1 - k * cw) + k * a * sw = 0"
  shows "(g - a) * (ct * cw - st * sw) + b * (st * cw + ct * sw) + k * (a * ct - b * st) = 0"
    and "(g - a) * (st * cw + ct * sw) - b * (ct * cw - st * sw) + k * (a * st + b * ct) = 0"
proof -
  have r: "g - a = - (k * (a * cw + b * sw))"
    using e1 by (simp add: algebra_simps)
  have s: "sw * sw = 1 - cw * cw"
    using q by (simp add: power2_eq_square algebra_simps)
  have k1: "(g - a) * cw + b * sw + k * a = sw * (b * (1 - k * cw) + k * a * sw)"
  proof -
    have "(g - a) * cw + b * sw + k * a = b * sw - k * b * sw * cw + k * a * (1 - cw * cw)"
      by (simp add: r algebra_simps)
    also have "\<dots> = b * sw - k * b * sw * cw + k * a * (sw * sw)"
      by (simp only: s)
    also have "\<dots> = sw * (b * (1 - k * cw) + k * a * sw)"
      by (simp add: algebra_simps)
    finally show ?thesis .
  qed
  have k2: "- (g - a) * sw + b * cw - k * b = cw * (b * (1 - k * cw) + k * a * sw)"
  proof -
    have "- (g - a) * sw + b * cw - k * b = k * a * cw * sw + b * cw - k * b * (1 - sw * sw)"
      by (simp add: r algebra_simps)
    also have "\<dots> = k * a * cw * sw + b * cw - k * b * (cw * cw)"
      by (simp add: s)
    also have "\<dots> = cw * (b * (1 - k * cw) + k * a * sw)"
      by (simp add: algebra_simps)
    finally show ?thesis .
  qed
  have "(g - a) * (ct * cw - st * sw) + b * (st * cw + ct * sw) + k * (a * ct - b * st)
      = ct * ((g - a) * cw + b * sw + k * a) + st * (- (g - a) * sw + b * cw - k * b)"
    by (simp add: algebra_simps)
  also have "\<dots> = 0"
    by (simp only: k1 k2 e2 mult_zero_right add_0_left)
  finally show "(g - a) * (ct * cw - st * sw) + b * (st * cw + ct * sw) + k * (a * ct - b * st) = 0" .
  have "(g - a) * (st * cw + ct * sw) - b * (ct * cw - st * sw) + k * (a * st + b * ct)
      = st * ((g - a) * cw + b * sw + k * a) - ct * (- (g - a) * sw + b * cw - k * b)"
    by (simp add: algebra_simps)
  also have "\<dots> = 0"
    by (simp only: k1 k2 e2 mult_zero_right diff_0_right)
  finally show "(g - a) * (st * cw + ct * sw) - b * (ct * cw - st * sw) + k * (a * st + b * ct) = 0" .
qed

lemma lag_identity:
  fixes x c C S R a b ct st k k' :: real
  assumes "(k' * R - a) * C + b * S + k * (a * ct - b * st) = 0" and "k' = 1 - k"
  shows "x + (c + C * R - x) * k' - (c + a * C - b * S) = k * (x - (c + a * ct - b * st))"
proof -
  have "x + (c + C * R - x) * k' - (c + a * C - b * S)
      = k * (x - (c + a * ct - b * st)) + ((k' * R - a) * C + b * S + k * (a * ct - b * st))"
    by (simp add: assms(2) algebra_simps)
  then show ?thesis
    by (simp only: assms(1) add_0_right)
qed

lemma steady_step:
  "euclid (position (update width height 0 1 r1 r2 p))
       (steady width height (update width height 0 1 r1 r2 p))
     = 0.9 * euclid (position p) (steady width height p)"
proof -
  define R where "R = targetRadius p 1"
  define cw where "cw = cos (p_angularSpeed p)"
  define sw where "sw = sin (p_angularSpeed p)"
  define ct where "ct = cos (p_angle p)"
  define st where "st = sin (p_angle p)"
  define D where "D = orbit_den p"
  define a where "a = 0.1 * R * (1 - 0.9 * cw) / D"
  define b where "b = - (0.09 * R * sw) / D"
  have q: "sw\<^sup>2 + cw\<^sup>2 = 1"
    by (simp add: sw_def cw_def)
  have D: "D = 1.81 - 1.8 * cw"
    by (simp add: D_def orbit_den_def cw_def)
  have D0: "D \<noteq> 0"
    using orbit_den_pos [of p] by (simp add: D_def)
  note e = steady_coeffs [OF q D D0 a_def b_def refl]
  have e1: "a * (1 - 0.9 * cw) - 0.9 * b * sw = 0.1 * R"
    by (rule e(1))
  have e2: "b * (1 - 0.9 * cw) + 0.9 * a * sw = 0"
    by (rule e(2))
  note id = rotate_identity [OF q e1 e2, where ct = ct and st = st]
  have idy: "(0.1 * R - a) * (st * cw + ct * sw) + (- b) * (ct * cw - st * sw)
      + 0.9 * (a * st - (- b) * ct) = 0"
    using id(2) by simp
  have k: "(0.1::real) = 1 - 0.9"
    by simp
  have cs: "cos (p_angle p + p_angularSpeed p) = ct * cw - st * sw"
    "sin (p_angle p + p_angularSpeed p) = st * cw + ct * sw"
    by (simp_all add: cos_add sin_add ct_def cw_def st_def sw_def)
  have x: "fst (position (update width height 0 1 r1 r2 p))
      - fst (steady width height (update width height 0 1 r1 r2 p))
      = 0.9 * (fst (position p) - fst (steady width height p))"
    using lag_identity [OF id(1) k, of "p_x p" "width / 2"]
    by (simp add: position_def steady_def update_fields jitter_def advance_angle_def targetX_def
        targetRadius_def orbit_den_def cs R_def a_def b_def D_def
        flip: ct_def st_def cw_def sw_def)
  have y: "snd (position (update width height 0 1 r1 r2 p))
      - snd (steady width height (update width height 0 1 r1 r2 p))
      = 0.9 * (snd (position p) - snd (steady width height p))"
    using lag_identity [OF idy k, of "p_y p" "height / 2"]
    by (simp add: position_def steady_def update_fields jitter_def advance_angle_def targetY_def
        targetRadius_def orbit_den_def cs R_def a_def b_def D_def
        flip: ct_def st_def cw_def sw_def)
  show ?thesis
    by (rule euclid_scale2 [OF x y]) simp
qed

lemma rotation_norm:
  fixes a b ct st :: real
  assumes "st\<^sup>2 + ct\<^sup>2 = 1"
  shows "(a * ct - b * st)\<^sup>2 + (a * st + b * ct)\<^sup>2 = a\<^sup>2 + b\<^sup>2"
proof -
  have "(a * ct - b * st)\<^sup>2 + (a * st + b * ct)\<^sup>2 = (a\<^sup>2 + b\<^sup>2) * (st\<^sup>2 + ct\<^sup>2)"
    by (simp add: power2_eq_square algebra_simps)
  then show ?thesis
    by (simp add: assms)
qed

lemma steady_radius:
  "euclid (steady width height p) (width / 2, height / 2)
     = 0.16 * \<bar>p_radius p\<bar> / sqrt (orbit_den p)"
proof -
  define R where "R = targetRadius p 1"
  define cw where "cw = cos (p_angularSpeed p)"
  define sw where "sw = sin (p_angularSpeed p)"
  define D where "D = orbit_den p"
  define a where "a = 0.1 * R * (1 - 0.9 * cw) / D"
  define b where "b = - (0.09 * R * sw) / D"
  have q: "sw\<^sup>2 + cw\<^sup>2 = 1"
    by (simp add: sw_def cw_def)
  have D: "D = 1.81 - 1.8 * cw"
    by (simp add: D_def orbit_den_def cw_def)
  have Dpos: "0 < D"
    using orbit_den_pos [of p] by (simp add: D_def)
  have "a\<^sup>2 + b\<^sup>2 = (0.1 * R)\<^sup>2 * ((1 - 0.9 * cw)\<^sup>2 + 0.81 * sw\<^sup>2) / D\<^sup>2"
    using Dpos by (simp add: a_def b_def power2_eq_square field_simps)
  also have "\<dots> = (0.1 * R)\<^sup>2 * D / D\<^sup>2"
    by (simp only: gain_identity [OF q] D)
  also have "\<dots> = (0.1 * R)\<^sup>2 / D"
    using Dpos by (simp add: power2_eq_square)
  finally have ab: "a\<^sup>2 + b\<^sup>2 = (0.1 * R)\<^sup>2 / D" .
  have "euclid (steady width height p) (width / 2, height / 2)
      = sqrt ((a * cos (p_angle p) - b * sin (p_angle p))\<^sup>2
            + (a * sin (p_angle p) + b * cos (p_angle p))\<^sup>2)"
    by (simp add: euclid_def steady_def a_def b_def R_def D_def cw_def sw_def)
  also have "\<dots> = sqrt (a\<^sup>2 + b\<^sup>2)"
    by (simp only: rotation_norm [OF sin_cos_squared_add])
  also have "\<dots> = \<bar>0.1 * R\<bar> / sqrt D"
    by (simp only: ab real_sqrt_divide real_sqrt_abs)
  also have "\<dots> = 0.16 * \<bar>p_radius p\<bar> / sqrt (orbit_den p)"
    by (simp add: R_def targetRadius_def D_def abs_mult)
  finally show ?thesis .
qed

lemma funpow_fields:
  "p_radius ((update width height 0 1 r1 r2 ^^ n) p) = p_radius p"
  "p_angularSpeed ((update width height 0 1 r1 r2 ^^ n) p) = p_angularSpeed p"
  by (induction n) (simp_all add: update_fields)

lemma steady_funpow:
  "euclid (position ((update width height 0 1 r1 r2 ^^ n) p))
       (steady width height ((update width height 0 1 r1 r2 ^^ n) p))
     = 0.9 ^ n * euclid (position p) (steady width height p)"
  by (induction n) (simp_all add: steady_step)

lemma steady_limit:
  "(\<lambda>n. euclid (position ((update width height 0 1 r1 r2 ^^ n) p))
       (steady width height ((update width height 0 1 r1 r2 ^^ n) p))) \<longlonglongrightarrow> 0"
proof -
  have "(\<lambda>n. (0.9::real) ^ n) \<longlonglongrightarrow> 0"
    by (rule LIMSEQ_realpow_zero) simp_all
  then have "(\<lambda>n. 0.9 ^ n * euclid (position p) (steady width height p)) \<longlonglongrightarrow> 0"
    by (rule tendsto_mult_left_zero)
  then show ?thesis
    by (simp only: steady_funpow)
qed

lemma steady_radius_le: "0.16 * \<bar>p_radius p\<bar> / sqrt (orbit_den p) \<le> 1.6 * \<bar>p_radius p\<bar>"
proof -
  have s: "0.1 \<le> sqrt (orbit_den p)"
    by (rule real_le_rsqrt) (use orbit_den_pos [of p] in \<open>simp add: power2_eq_square\<close>)
  then have "0.16 * \<bar>p_radius p\<bar> \<le> 1.6 * \<bar>p_radius p\<bar> * sqrt (orbit_den p)"
  proof -
    have "\<bar>p_radius p\<bar> * 0.1 \<le> \<bar>p_radius p\<bar> * sqrt (orbit_den p)"
      using s by (rule mult_left_mono) simp
    then show ?thesis
      by simp
  qed
  moreover have "0 < sqrt (orbit_den p)"
    using s by linarith
  ultimately show ?thesis
    by (simp add: pos_divide_le_eq)
qed

lemma euclid_cmod: "euclid a b = cmod (Complex (fst a) (snd a) - Complex (fst b) (snd b))"
  by (simp add: euclid_def cmod_def)

lemma euclid_triangle: "euclid a c \<le> euclid a b + euclid b c"
  using norm_triangle_ineq [of "Complex (fst a) (snd a) - Complex (fst b) (snd b)"
      "Complex (fst b) (snd b) - Complex (fst c) (snd c)"]
  by (simp add: euclid_cmod)

lemma euclid_nonneg: "0 \<le> euclid a b"
  by (simp add: euclid_def)

lemma euclid_triangle3: "\<bar>euclid a c - euclid b c\<bar> \<le> euclid a b"
  using norm_triangle_ineq3 [of "Complex (fst a) (snd a) - Complex (fst c) (snd c)"
      "Complex (fst b) (snd b) - Complex (fst c) (snd c)"]
  by (simp add: euclid_cmod)

lemma orbit_limit:
  "(\<lambda>n. euclid (position ((update width height 0 1 r1 r2 ^^ n) p)) (width / 2, height / 2))
     \<longlonglongrightarrow> 0.16 * \<bar>p_radius p\<bar> / sqrt (orbit_den p)"
proof -
  let ?q = "\<lambda>n. (update width height 0 1 r1 r2 ^^ n) p"
  let ?rho = "0.16 * \<bar>p_radius p\<bar> / sqrt (orbit_den p)"
  have rho: "euclid (steady width height (?q n)) (width / 2, height / 2) = ?rho" for n
    by (simp only: steady_radius orbit_den_def funpow_fields)
  have le: "norm (euclid (position (?q n)) (width / 2, height / 2) - ?rho)
      \<le> norm (euclid (position (?q n)) (steady width height (?q n))) * 1" for n
    using euclid_triangle3 [of "position (?q n)" "(width / 2, height / 2)" "steady width height (?q n)"]
      euclid_nonneg [of "position (?q n)" "steady width height (?q n)"]
    by (simp only: rho real_norm_def mult_1_right abs_of_nonneg)
  have "(\<lambda>n. euclid (position (?q n)) (width / 2, height / 2) - ?rho) \<longlonglongrightarrow> 0"
    by (rule tendsto_0_le [OF steady_limit [of width height r1 r2 p], where K = 1])
      (rule always_eventually, rule allI, rule le)
  then show ?thesis
    by (simp only: LIM_zero_iff)
qed

text \<open>
  Claim C7, as the code has it. A tick with chaos 0 and scale 1 adds no jitter (the
  jitter magnitude is 0, and the result does not depend on the two draws): it advances
  the angle by \<open>angularSpeed\<close> and moves the position one tenth of the way to the target
  point of this tick, which lies on the circle of radius \<open>1.6 * radius\<close> around the
  centre of the canvas. So within a tick the distance from the position to the target of
  that tick shrinks by the factor 0.9. Invoked repeatedly on a canvas of fixed size, the
  ticks drive the position onto a fixed circular orbit around the centre: the distance to
  the point of that orbit belonging to the particle's angle shrinks by exactly the factor
  0.9 in each tick, so it tends to 0, and the distance to the centre tends to the radius
  of the orbit, \<open>0.16 * radius / sqrt (1.81 - 1.8 * cos angularSpeed)\<close>, which is at
  most \<open>1.6 * radius\<close>.
\<close>

theorem calm_tick:
  "jitter 0 = 0
   \<and> update width height 0 1 r1 r2 p =
       p\<lparr>p_angle := p_angle p + p_angularSpeed p,
         p_x := p_x p + (targetX p width 0 1 - p_x p) * 0.1,
         p_y := p_y p + (targetY p height 0 1 - p_y p) * 0.1\<rparr>
   \<and> euclid (position (update width height 0 1 r1 r2 p)) (target width height 0 1 p)
       = 0.9 * euclid (position p) (target width height 0 1 p)
   \<and> euclid (target width height 0 1 p) (width / 2, height / 2) = 1.6 * \<bar>p_radius p\<bar>
   \<and> euclid (position ((update width height 0 1 r1 r2 ^^ n) p))
         (steady width height ((update width height 0 1 r1 r2 ^^ n) p))
       = 0.9 ^ n * euclid (position p) (steady width height p)
   \<and> euclid (steady width height ((update width height 0 1 r1 r2 ^^ n) p)) (width / 2, height / 2)
       = 0.16 * \<bar>p_radius p\<bar> / sqrt (1.81 - 1.8 * cos (p_angularSpeed p))
   \<and> (\<lambda>k. euclid (position ((update width height 0 1 r1 r2 ^^ k) p))
         (steady width height ((update width height 0 1 r1 r2 ^^ k) p))) \<longlonglongrightarrow> 0
   \<and> (\<lambda>k. euclid (position ((update width height 0 1 r1 r2 ^^ k) p)) (width / 2, height / 2))
         \<longlonglongrightarrow> 0.16 * \<bar>p_radius p\<bar> / sqrt (1.81 - 1.8 * cos (p_angularSpeed p))
   \<and> 0.16 * \<bar>p_radius p\<bar> / sqrt (1.81 - 1.8 * cos (p_angularSpeed p)) \<le> 1.6 * \<bar>p_radius p\<bar>"
proof -
  have "euclid (target width height 0 1 p) (width / 2, height / 2) = 1.6 * \<bar>p_radius p\<bar>"
    by (simp add: target_on_orbit targetRadius_def abs_mult)
  moreover have "update width height 0 1 r1 r2 p =
       p\<lparr>p_angle := p_angle p + p_angularSpeed p,
         p_x := p_x p + (targetX p width 0 1 - p_x p) * 0.1,
         p_y := p_y p + (targetY p height 0 1 - p_y p) * 0.1\<rparr>"
    by (simp add: update_fields jitter_def advance_angle_def)
  moreover have "jitter 0 = 0"
    by (simp add: jitter_def)
  moreover have "euclid (steady width height ((update width height 0 1 r1 r2 ^^ n) p))
         (width / 2, height / 2)
       = 0.16 * \<bar>p_radius p\<bar> / sqrt (1.81 - 1.8 * cos (p_angularSpeed p))"
    by (simp only: steady_radius orbit_den_def funpow_fields)
  moreover have "(\<lambda>k. euclid (position ((update width height 0 1 r1 r2 ^^ k) p))
         (width / 2, height / 2))
       \<longlonglongrightarrow> 0.16 * \<bar>p_radius p\<bar> / sqrt (1.81 - 1.8 * cos (p_angularSpeed p))"
    using orbit_limit [of width height r1 r2 p] by (simp only: orbit_den_def)
  moreover have "0.16 * \<bar>p_radius p\<bar> / sqrt (1.81 - 1.8 * cos (p_angularSpeed p))
       \<le> 1.6 * \<bar>p_radius p\<bar>"
    using steady_radius_le [of p] by (simp only: orbit_den_def)
  moreover have "euclid (position ((update width height 0 1 r1 r2 ^^ n) p))
         (steady width height ((update width height 0 1 r1 r2 ^^ n) p))
       = 0.9 ^ n * euclid (position p) (steady width height p)"
    by (rule steady_funpow)
  moreover have "(\<lambda>k. euclid (position ((update width height 0 1 r1 r2 ^^ k) p))
         (steady width height ((update width height 0 1 r1 r2 ^^ k) p))) \<longlonglongrightarrow> 0"
    by (rule steady_limit)
  moreover have "euclid (position (update width height 0 1 r1 r2 p)) (target width height 0 1 p)
       = 0.9 * euclid (position p) (target width height 0 1 p)"
    by (rule calm_step)
  ultimately show ?thesis
    by blast
qed

text \<open>
  The target point moves along the circle by \<open>angularSpeed\<close> in every tick, so from one
  tick to the next the distance to the target does not shrink by the factor 0.9. The
  example is a particle fresh from the constructor on a canvas of 300 by 150 (radius 25,
  angle 0, angular speed 0.05), ticked twice.
\<close>

lemma cos_small: "cos (1 / 20 :: real) < 1"
proof -
  have "cos (1 / 20 :: real) < cos 0"
    by (rule cos_monotone_0_pi) (use pi_ge_two in simp_all)
  then show ?thesis by simp
qed

lemma chord:
  fixes c1 s1 c2 s2 :: real
  assumes "s1\<^sup>2 + c1\<^sup>2 = 1" and "s2\<^sup>2 + c2\<^sup>2 = 1"
  shows "(4 * c1 - 40 * c2)\<^sup>2 + (4 * s1 - 40 * s2)\<^sup>2 = 1616 - 320 * (c2 * c1 + s2 * s1)"
proof -
  have "(4 * c1 - 40 * c2)\<^sup>2 + (4 * s1 - 40 * s2)\<^sup>2
      = 16 * (s1\<^sup>2 + c1\<^sup>2) + 1600 * (s2\<^sup>2 + c2\<^sup>2) - 320 * (c2 * c1 + s2 * s1)"
    by (simp add: power2_eq_square algebra_simps)
  then show ?thesis
    by (simp add: assms)
qed

lemma fresh_fields:
  "Particle_new 300 150 draws0 =
     \<lparr> p_x = 150, p_y = 75, p_z = 1, p_vx = 0, p_vy = 0, p_size = 1.5,
       p_color = Some ''rgba(200, 100, 255, '', p_angle = 0, p_radius = 25, p_angularSpeed = 0.05 \<rparr>"
  by (simp add: Particle_new_def draws0_def colors_at_def colors_def)

lemma ticked_fields:
  "update 300 150 0 1 r1 r2 (Particle_new 300 150 draws0) =
     \<lparr> p_x = 150 + 4 * cos (1 / 20), p_y = 75 + 4 * sin (1 / 20), p_z = 1, p_vx = 0, p_vy = 0,
       p_size = 1.5, p_color = Some ''rgba(200, 100, 255, '', p_angle = 1 / 20, p_radius = 25,
       p_angularSpeed = 0.05 \<rparr>"
  by (simp add: fresh_fields update_fields advance_angle_def targetX_def targetY_def
      targetRadius_def jitter_def)

lemma fresh_distance:
  "euclid (position (Particle_new 300 150 draws0))
     (target 300 150 0 1 (Particle_new 300 150 draws0)) = 40"
  using target_on_orbit [of 300 150 0 1 "Particle_new 300 150 draws0"]
  by (simp add: fresh_fields position_def euclid_def targetRadius_def target_def power2_commute)

lemma ticked_distance_sq:
  "(euclid (position (update 300 150 0 1 r1 r2 (Particle_new 300 150 draws0)))
     (target 300 150 0 1 (update 300 150 0 1 r1 r2 (Particle_new 300 150 draws0))))\<^sup>2
    = 1616 - 320 * cos (1 / 20)"
proof -
  have e: "cos (1 / 20 :: real) = cos (1 / 10) * cos (1 / 20) + sin (1 / 10) * sin (1 / 20)"
    using cos_diff [of "1 / 10 :: real" "1 / 20"] by simp
  have "(4 * cos (1 / 20 :: real) - 40 * cos (1 / 10))\<^sup>2 + (4 * sin (1 / 20) - 40 * sin (1 / 10))\<^sup>2
        = 1616 - 320 * (cos (1 / 10) * cos (1 / 20) + sin (1 / 10) * sin (1 / 20))"
    by (rule chord) simp_all
  also have "\<dots> = 1616 - 320 * cos (1 / 20)"
    using e by simp
  finally have sq: "(4 * cos (1 / 20 :: real) - 40 * cos (1 / 10))\<^sup>2
      + (4 * sin (1 / 20) - 40 * sin (1 / 10))\<^sup>2 = 1616 - 320 * cos (1 / 20)" .
  have "(euclid (position (update 300 150 0 1 r1 r2 (Particle_new 300 150 draws0)))
     (target 300 150 0 1 (update 300 150 0 1 r1 r2 (Particle_new 300 150 draws0))))\<^sup>2
     = (4 * cos (1 / 20 :: real) - 40 * cos (1 / 10))\<^sup>2 + (4 * sin (1 / 20) - 40 * sin (1 / 10))\<^sup>2"
    by (simp add: ticked_fields euclid_def position_def target_def targetX_def targetY_def
        advance_angle_def targetRadius_def mult.commute)
  with sq show ?thesis
    by simp
qed

lemma fresh_orbit: "0.16 * \<bar>p_radius (Particle_new 300 150 draws0)\<bar>
    / sqrt (orbit_den (Particle_new 300 150 draws0)) < 40"
proof -
  have "(0.1::real)\<^sup>2 < orbit_den (Particle_new 300 150 draws0)"
    using cos_small by (simp add: orbit_den_def fresh_fields power2_eq_square)
  then have "0.1 < sqrt (orbit_den (Particle_new 300 150 draws0))"
    by (rule real_less_rsqrt)
  then have "4 < 40 * sqrt (orbit_den (Particle_new 300 150 draws0))"
    by simp
  moreover have "0 < sqrt (orbit_den (Particle_new 300 150 draws0))"
    using \<open>0.1 < sqrt (orbit_den (Particle_new 300 150 draws0))\<close> by linarith
  ultimately show ?thesis
    by (simp add: fresh_fields pos_divide_less_eq)
qed

lemma no_limit_40:
  "\<not> (\<lambda>n. euclid (position ((update 300 150 0 1 0.5 0.5 ^^ n) (Particle_new 300 150 draws0)))
        (300 / 2, 150 / 2)) \<longlonglongrightarrow> 1.6 * 25"
proof
  let ?p = "Particle_new 300 150 draws0"
  let ?q = "\<lambda>n. (update 300 150 0 1 0.5 0.5 ^^ n) ?p"
  let ?rho = "0.16 * \<bar>p_radius ?p\<bar> / sqrt (orbit_den ?p)"
  assume lim: "(\<lambda>n. euclid (position (?q n)) (300 / 2, 150 / 2)) \<longlonglongrightarrow> 1.6 * 25"
  have rho: "euclid (steady 300 150 (?q n)) (300 / 2, 150 / 2) = ?rho" for n
    by (simp only: steady_radius orbit_den_def funpow_fields)
  have le: "euclid (position (?q n)) (300 / 2, 150 / 2)
      \<le> euclid (position (?q n)) (steady 300 150 (?q n)) + ?rho" for n
    using euclid_triangle [of "position (?q n)" "(300 / 2, 150 / 2)" "steady 300 150 (?q n)"]
    by (simp only: rho)
  have "(\<lambda>n. euclid (position (?q n)) (steady 300 150 (?q n)) + ?rho) \<longlonglongrightarrow> 0 + ?rho"
    by (intro tendsto_add steady_limit tendsto_const)
  with lim have "1.6 * 25 \<le> 0 + ?rho"
    by (rule LIMSEQ_le) (use le in blast)
  with fresh_orbit show False
    by simp
qed

text \<open>
  Claim C7, as it is stated, fails, for a particle fresh from the constructor on a canvas
  of 300 by 150 (radius 25, angle 0, angular speed 0.05). After the second tick its
  distance to the target of that tick is not 0.9 times the distance it had to the target
  of the first tick after the first tick. The orbit it settles on has a radius below
  \<open>1.6 * 25\<close>, and its distance to the centre does not tend to \<open>1.6 * 25\<close>.
\<close>

theorem calm_tick_counterexample:
  "euclid (position (update 300 150 0 1 0.5 0.5 (update 300 150 0 1 0.5 0.5 (Particle_new 300 150 draws0))))
      (target 300 150 0 1 (update 300 150 0 1 0.5 0.5 (Particle_new 300 150 draws0)))
   \<noteq> 0.9 * euclid (position (update 300 150 0 1 0.5 0.5 (Particle_new 300 150 draws0)))
      (target 300 150 0 1 (Particle_new 300 150 draws0))
   \<and> euclid (steady 300 150 (Particle_new 300 150 draws0)) (300 / 2, 150 / 2) < 1.6 * 25
   \<and> \<not> (\<lambda>n. euclid (position ((update 300 150 0 1 0.5 0.5 ^^ n) (Particle_new 300 150 draws0)))
          (300 / 2, 150 / 2)) \<longlonglongrightarrow> 1.6 * 25"
proof -
  have "euclid (position (update 300 150 0 1 0.5 0.5 (update 300 150 0 1 0.5 0.5 (Particle_new 300 150 draws0))))
      (target 300 150 0 1 (update 300 150 0 1 0.5 0.5 (Particle_new 300 150 draws0)))
   \<noteq> 0.9 * euclid (position (update 300 150 0 1 0.5 0.5 (Particle_new 300 150 draws0)))
      (target 300 150 0 1 (Particle_new 300 150 draws0))"
  proof
    assume "euclid (position (update 300 150 0 1 0.5 0.5 (update 300 150 0 1 0.5 0.5 (Particle_new 300 150 draws0))))
        (target 300 150 0 1 (update 300 150 0 1 0.5 0.5 (Particle_new 300 150 draws0)))
     = 0.9 * euclid (position (update 300 150 0 1 0.5 0.5 (Particle_new 300 150 draws0)))
        (target 300 150 0 1 (Particle_new 300 150 draws0))"
    then have "euclid (position (update 300 150 0 1 0.5 0.5 (Particle_new 300 150 draws0)))
       (target 300 150 0 1 (update 300 150 0 1 0.5 0.5 (Particle_new 300 150 draws0))) = 36"
      by (simp add: calm_step fresh_distance)
    then have "1616 - 320 * cos (1 / 20 :: real) = 36\<^sup>2"
      using ticked_distance_sq [of "0.5" "0.5"] by simp
    then have "cos (1 / 20 :: real) = 1"
      by simp
    with cos_small show False
      by simp
  qed
  moreover have "euclid (steady 300 150 (Particle_new 300 150 draws0)) (300 / 2, 150 / 2) < 1.6 * 25"
    using fresh_orbit by (simp only: steady_radius)
  ultimately show ?thesis
    using no_limit_40 by blast
qed

section \<open>The start of the simulation\<close>







section \<open>Frames of the gesture controller\<close>

lemma array_at_Cons_0: "array_at (a # as) 0 = Some a"
  by (simp add: array_at_def)

lemma array_at_pinch_4: "array_at (pinch d) 4 = Some origin"
  by (simp add: array_at_def pinch_def)

lemma array_at_pinch_8: "array_at (pinch d) 8 = Some \<lparr> lm_x = d, lm_y = 0, lm_z = 0 \<rparr>"
  by (simp add: array_at_def pinch_def)

lemma distance_pinch: "distance origin \<lparr> lm_x = d, lm_y = 0, lm_z = 0 \<rparr> = \<bar>d\<bar>"
  by (simp add: distance_def origin_def)

lemma hand_callback_value:
  assumes "array_at (res_handednesses result) index = Some hs" and "array_at hs 0 = Some cat"
    and "array_at landmarks 4 = Some thumb" and "array_at landmarks 8 = Some indexFinger"
  shows "hand_callback result cs landmarks index =
     Inr (if categoryName cat = ''Left''
          then (normalizedValue (distance thumb indexFinger), snd cs)
          else (fst cs, normalizedValue (distance thumb indexFinger)))"
  using assms by (simp add: hand_callback_def Let_def)

lemma frame_step_one_hand:
  assumes "handLandmarker_set f" and "video_set f" and "0 < videoWidth f"
    and "res_landmarks (detectForVideo f) = [landmarks]"
    and "array_at (res_handednesses (detectForVideo f)) 0 = Some hs" and "array_at hs 0 = Some cat"
    and "array_at landmarks 4 = Some thumb" and "array_at landmarks 8 = Some indexFinger"
  shows "frame_step current f =
     Inr (if categoryName cat = ''Left''
          then \<lparr> sp_chaos = normalizedValue (distance thumb indexFinger), sp_scale = 0.5,
                 sp_active = True \<rparr>
          else \<lparr> sp_chaos = 0, sp_scale = normalizedValue (distance thumb indexFinger),
                 sp_active = True \<rparr>)"
proof -
  have "forEach_landmarks (detectForVideo f) [landmarks] 0 (0, 0.5) =
     Inr (if categoryName cat = ''Left''
          then (normalizedValue (distance thumb indexFinger), 0.5)
          else (0, normalizedValue (distance thumb indexFinger)))"
    by (simp add: hand_callback_value [OF assms(5-8)])
  with assms(1-4) show ?thesis
    by (simp add: frame_step_def predictWebcam_def handleParamsUpdate_def)
qed

lemma frame_step_seen_one:
  "frame_step current (seen [(name, d)]) =
     Inr (if name = ''Left''
          then \<lparr> sp_chaos = normalizedValue \<bar>d\<bar>, sp_scale = 0.5, sp_active = True \<rparr>
          else \<lparr> sp_chaos = 0, sp_scale = normalizedValue \<bar>d\<bar>, sp_active = True \<rparr>)"
  using frame_step_one_hand [of "seen [(name, d)]" "pinch d" "[\<lparr> categoryName = name \<rparr>]"
      "\<lparr> categoryName = name \<rparr>" origin "\<lparr> lm_x = d, lm_y = 0, lm_z = 0 \<rparr>" current]
  by (simp add: seen_def array_at_Cons_0 array_at_pinch_4 array_at_pinch_8 distance_pinch)

lemma frame_step_seen_empty:
  "frame_step current (seen []) = Inr \<lparr> sp_chaos = 0, sp_scale = 0.5, sp_active = False \<rparr>"
  by (simp add: frame_step_def predictWebcam_def seen_def handleParamsUpdate_def)

text \<open>
  Claim C1, as the code has it. A frame that is processed (landmarker and video are
  there, the video has data) and in which the detector finds no hand calls
  \<^verbatim>\<open>onParamsUpdate\<close> with \<open>active = false\<close> and with the values every frame starts
  from, \<open>chaos = 0\<close> and \<open>scale = 0.5\<close>; the parameters after the frame are these,
  whatever they were before.
\<close>

theorem no_hands_defaults:
  assumes "handLandmarker_set f" and "video_set f" and "0 < videoWidth f"
    and "res_landmarks (detectForVideo f) = []"
  shows "predictWebcam f =
           Inr (Some \<lparr> pp_chaos = Some 0, pp_scale = Some 0.5, pp_active = Some False \<rparr>)
    \<and> frame_step current f = Inr \<lparr> sp_chaos = 0, sp_scale = 0.5, sp_active = False \<rparr>"
  using assms by (simp add: predictWebcam_def frame_step_def handleParamsUpdate_def)

theorem no_hands_defaults_witness:
  "handLandmarker_set (seen []) \<and> video_set (seen []) \<and> 0 < videoWidth (seen [])
   \<and> res_landmarks (detectForVideo (seen [])) = []
   \<and> predictWebcam (seen []) =
        Inr (Some \<lparr> pp_chaos = Some 0, pp_scale = Some 0.5, pp_active = Some False \<rparr>)
   \<and> frame_step \<lparr> sp_chaos = 0.5, sp_scale = 0.8, sp_active = True \<rparr> (seen [])
        = Inr \<lparr> sp_chaos = 0, sp_scale = 0.5, sp_active = False \<rparr>"
  using no_hands_defaults [of "seen []" "\<lparr> sp_chaos = 0.5, sp_scale = 0.8, sp_active = True \<rparr>"]
  by (simp add: seen_def)

text \<open>
  Claim C1, as it is stated, fails. From the initial parameters a frame with one left hand
  whose tips are 0.1 apart gives \<open>chaos = 0.5\<close>; the next frame, without a hand, gives
  \<open>chaos = 0\<close>, not the 0.5 of the frame before.
\<close>

theorem no_hands_counterexample:
  "frame_step INITIAL_PARAMS (seen [(''Left'', 0.1)])
     = Inr \<lparr> sp_chaos = 0.5, sp_scale = 0.5, sp_active = True \<rparr>
   \<and> res_landmarks (detectForVideo (seen [])) = []
   \<and> frame_step \<lparr> sp_chaos = 0.5, sp_scale = 0.5, sp_active = True \<rparr> (seen [])
     = Inr \<lparr> sp_chaos = 0, sp_scale = 0.5, sp_active = False \<rparr>
   \<and> sp_chaos \<lparr> sp_chaos = 0, sp_scale = 0.5, sp_active = False \<rparr>
     \<noteq> sp_chaos \<lparr> sp_chaos = 0.5, sp_scale = 0.5, sp_active = True \<rparr>"
proof -
  have "res_landmarks (detectForVideo (seen [])) = []"
    by (simp add: seen_def)
  then show ?thesis
    by (simp add: frame_step_seen_one frame_step_seen_empty normalizedValue_def)
qed

text \<open>
  Claim C2, as the code has it. In a processed frame with one hand, read without a
  \<^verbatim>\<open>TypeError\<close> (the hand has a category and landmarks 4 and 8), whose thumb and index
  tips are \<open>distance thumb indexFinger\<close> apart: a hand named \<^verbatim>\<open>Left\<close> sets chaos to
  that distance times 5, clamped to \<open>[0, 1]\<close>, and the scale is the 0.5 every frame
  starts from; a hand of any other name sets the scale to the clamped value, and chaos
  is the 0 every frame starts from. The parameters of the frame before play no part.
\<close>

theorem one_hand_frame:
  assumes "handLandmarker_set f" and "video_set f" and "0 < videoWidth f"
    and "res_landmarks (detectForVideo f) = [landmarks]"
    and "array_at (res_handednesses (detectForVideo f)) 0 = Some hs" and "array_at hs 0 = Some cat"
    and "array_at landmarks 4 = Some thumb" and "array_at landmarks 8 = Some indexFinger"
  shows "(categoryName cat = ''Left'' \<longrightarrow>
            frame_step current f =
              Inr \<lparr> sp_chaos = min (max (distance thumb indexFinger * 5) 0) 1,
                    sp_scale = 0.5, sp_active = True \<rparr>)
       \<and> (categoryName cat \<noteq> ''Left'' \<longrightarrow>
            frame_step current f =
              Inr \<lparr> sp_chaos = 0,
                    sp_scale = min (max (distance thumb indexFinger * 5) 0) 1, sp_active = True \<rparr>)"
  by (simp add: frame_step_one_hand [OF assms] normalizedValue_def)

theorem one_hand_frame_witness:
  "res_landmarks (detectForVideo (seen [(''Left'', 0.1)])) = [pinch 0.1]
   \<and> array_at (pinch 0.1) 4 = Some origin
   \<and> array_at (pinch 0.1) 8 = Some \<lparr> lm_x = 0.1, lm_y = 0, lm_z = 0 \<rparr>
   \<and> distance origin \<lparr> lm_x = 0.1, lm_y = 0, lm_z = 0 \<rparr> = 0.1
   \<and> frame_step \<lparr> sp_chaos = 0.3, sp_scale = 0.8, sp_active = False \<rparr> (seen [(''Left'', 0.1)])
       = Inr \<lparr> sp_chaos = 0.5, sp_scale = 0.5, sp_active = True \<rparr>
   \<and> frame_step \<lparr> sp_chaos = 0.3, sp_scale = 0.8, sp_active = False \<rparr> (seen [(''Right'', 0.1)])
       = Inr \<lparr> sp_chaos = 0, sp_scale = 0.5, sp_active = True \<rparr>"
  using
    one_hand_frame [of "seen [(''Left'', 0.1)]" "pinch 0.1" "[\<lparr> categoryName = ''Left'' \<rparr>]"
      "\<lparr> categoryName = ''Left'' \<rparr>" origin "\<lparr> lm_x = 0.1, lm_y = 0, lm_z = 0 \<rparr>"
      "\<lparr> sp_chaos = 0.3, sp_scale = 0.8, sp_active = False \<rparr>"]
    one_hand_frame [of "seen [(''Right'', 0.1)]" "pinch 0.1" "[\<lparr> categoryName = ''Right'' \<rparr>]"
      "\<lparr> categoryName = ''Right'' \<rparr>" origin "\<lparr> lm_x = 0.1, lm_y = 0, lm_z = 0 \<rparr>"
      "\<lparr> sp_chaos = 0.3, sp_scale = 0.8, sp_active = False \<rparr>"]
  by (simp add: seen_def array_at_Cons_0 array_at_pinch_4 array_at_pinch_8 distance_pinch)

text \<open>
  Claim C2, as it is stated, fails. A right hand with tips 0.16 apart sets the scale to
  0.8; in the next frame a single left hand (tips 0.1 apart) leaves the scale at 0.5, not
  at 0.8. And after that frame, where chaos is 0.5, a single right hand leaves chaos at 0.
\<close>

theorem one_hand_counterexample:
  "frame_step INITIAL_PARAMS (seen [(''Right'', 0.16)])
     = Inr \<lparr> sp_chaos = 0, sp_scale = 0.8, sp_active = True \<rparr>
   \<and> frame_step \<lparr> sp_chaos = 0, sp_scale = 0.8, sp_active = True \<rparr> (seen [(''Left'', 0.1)])
     = Inr \<lparr> sp_chaos = 0.5, sp_scale = 0.5, sp_active = True \<rparr>
   \<and> sp_scale \<lparr> sp_chaos = 0.5, sp_scale = 0.5, sp_active = True \<rparr>
     \<noteq> sp_scale \<lparr> sp_chaos = 0, sp_scale = 0.8, sp_active = True \<rparr>
   \<and> frame_step \<lparr> sp_chaos = 0.5, sp_scale = 0.5, sp_active = True \<rparr> (seen [(''Right'', 0.16)])
     = Inr \<lparr> sp_chaos = 0, sp_scale = 0.8, sp_active = True \<rparr>
   \<and> sp_chaos \<lparr> sp_chaos = 0, sp_scale = 0.8, sp_active = True \<rparr>
     \<noteq> sp_chaos \<lparr> sp_chaos = 0.5, sp_scale = 0.5, sp_active = True \<rparr>"
  by (simp add: frame_step_seen_one normalizedValue_def)

text \<open>
  Claim C6. For a hand that is read without a \<^verbatim>\<open>TypeError\<close>, the value the callback
  assigns (to chaos for a hand named \<^verbatim>\<open>Left\<close>, to the scale otherwise) is
  \<open>min (max (distance * 5) 0) 1\<close>, where the distance is the Euclidean distance of the
  thumb tip and the index tip in the plane. That value is 0 when the two tips have the
  same coordinates and 1 when the distance is at least 0.2.
\<close>

theorem pinch_value:
  assumes "array_at (res_handednesses result) index = Some hs" and "array_at hs 0 = Some cat"
    and "array_at landmarks 4 = Some thumb" and "array_at landmarks 8 = Some indexFinger"
  shows "hand_callback result cs landmarks index =
           Inr (if categoryName cat = ''Left''
                then (min (max (distance thumb indexFinger * 5) 0) 1, snd cs)
                else (fst cs, min (max (distance thumb indexFinger * 5) 0) 1))
     \<and> distance thumb indexFinger =
           sqrt ((lm_x thumb - lm_x indexFinger)\<^sup>2 + (lm_y thumb - lm_y indexFinger)\<^sup>2)
     \<and> (lm_x thumb = lm_x indexFinger \<and> lm_y thumb = lm_y indexFinger \<longrightarrow>
           min (max (distance thumb indexFinger * 5) 0) 1 = 0)
     \<and> (0.2 \<le> distance thumb indexFinger \<longrightarrow>
           min (max (distance thumb indexFinger * 5) 0) 1 = 1)"
proof -
  have "hand_callback result cs landmarks index =
           Inr (if categoryName cat = ''Left''
                then (min (max (distance thumb indexFinger * 5) 0) 1, snd cs)
                else (fst cs, min (max (distance thumb indexFinger * 5) 0) 1))"
    by (simp add: hand_callback_value [OF assms] normalizedValue_def)
  moreover have "lm_x thumb = lm_x indexFinger \<and> lm_y thumb = lm_y indexFinger \<longrightarrow>
      min (max (distance thumb indexFinger * 5) 0) (1::real) = 0"
    by (simp add: distance_def)
  moreover have "0.2 \<le> distance thumb indexFinger \<longrightarrow>
      min (max (distance thumb indexFinger * 5) 0) (1::real) = 1"
    by (simp add: min_def max_def)
  ultimately show ?thesis
    by (simp add: distance_def)
qed

theorem pinch_value_witness:
  "lm_x origin = lm_x \<lparr> lm_x = 0, lm_y = 0, lm_z = 0 \<rparr>
   \<and> lm_y origin = lm_y \<lparr> lm_x = 0, lm_y = 0, lm_z = 0 \<rparr>
   \<and> hand_callback (detectForVideo (seen [(''Left'', 0)])) (0, 0.5) (pinch 0) 0 = Inr (0, 0.5)
   \<and> (0.2::real) \<le> distance origin \<lparr> lm_x = 0.3, lm_y = 0, lm_z = 0 \<rparr>
   \<and> hand_callback (detectForVideo (seen [(''Right'', 0.3)])) (0, 0.5) (pinch 0.3) 0 = Inr (0, 1)"
  using
    pinch_value [of "detectForVideo (seen [(''Left'', 0)])" 0 "[\<lparr> categoryName = ''Left'' \<rparr>]"
      "\<lparr> categoryName = ''Left'' \<rparr>" "pinch 0" origin "\<lparr> lm_x = 0, lm_y = 0, lm_z = 0 \<rparr>"
      "(0, 0.5)"]
    pinch_value [of "detectForVideo (seen [(''Right'', 0.3)])" 0 "[\<lparr> categoryName = ''Right'' \<rparr>]"
      "\<lparr> categoryName = ''Right'' \<rparr>" "pinch 0.3" origin "\<lparr> lm_x = 0.3, lm_y = 0, lm_z = 0 \<rparr>"
      "(0, 0.5)"]
  by (simp add: seen_def array_at_Cons_0 array_at_pinch_4 array_at_pinch_8 distance_pinch origin_def)

section \<open>The analysis never throws\<close>

text \<open>
  Claim C8. For every chaos, scale and query, and whatever the call of the model does,
  \<open>generateCosmicAnalysis\<close> returns a string and throws nothing; when the call of the
  model fails, the string is the fixed text \<^verbatim>\<open>ANALYSIS FAILED: Cosmic interference detected.\<close>
\<close>

theorem generateCosmicAnalysis_never_throws:
  "(\<exists>s. generateCosmicAnalysis generateContent chaos scale userQuery = Inr s)
   \<and> (\<forall>e. generateContent (request chaos scale userQuery) = Inl e \<longrightarrow>
          generateCosmicAnalysis generateContent chaos scale userQuery
            = Inr ''ANALYSIS FAILED: Cosmic interference detected.'')"
  by (simp add: generateCosmicAnalysis_def try_block_def split: sum.split)

theorem generateCosmicAnalysis_never_throws_witness:
  "(\<lambda>r. Inl (Rejected ''503'')) (request 0.1 0.5 None) = (Inl (Rejected ''503'') :: js_error + GenerateContentResponse)
   \<and> generateCosmicAnalysis (\<lambda>r. Inl (Rejected ''503'')) 0.1 0.5 None
       = Inr ''ANALYSIS FAILED: Cosmic interference detected.''"
  using generateCosmicAnalysis_never_throws [of "\<lambda>r. Inl (Rejected ''503'')" "0.1" "0.5" None]
  by simp

end
